theory Spec2Isabelle
  imports Main "HOL-Library.Word"
begin

section \<open>Values, errors and effects\<close>

text \<open>
  The printer client of \<^verbatim>\<open>src/niimprint/printer.py\<close> talks to a label printer through a
  byte transport.  Bytes are 8-bit words, Python integers are \<open>int\<close>, and every exception
  the client can raise is a value of \<open>error\<close>.
\<close>

type_synonym byte = "8 word"

datatype error =
    ValueError | NotImplementedError | AssertionError | AttributeError | IndexError
  | StructError | OverflowError

text \<open>\<^verbatim>\<open>NiimbotPacket(type, data)\<close>: a command code and a payload.\<close>

record packet =
  type :: int
  data :: "byte list"

text \<open>
  The module \<^verbatim>\<open>packet\<close> that serialises a \<^verbatim>\<open>NiimbotPacket\<close> is imported by the client but
  is not among the source files, so the two conversions are a parameter of every operation
  that uses them.
\<close>

record codec =
  to_bytes :: "packet \<Rightarrow> error + byte list"
  from_bytes :: "byte list \<Rightarrow> error + packet"

text \<open>
  What the outside world sees of a run: the byte strings handed to \<^verbatim>\<open>transport.write\<close> and
  the calls of \<^verbatim>\<open>time.sleep(0.1)\<close>, in order.
\<close>

datatype event = Wrote "byte list" | Slept

text \<open>
  The state of a \<^verbatim>\<open>PrinterClient\<close>: its receive buffer \<^verbatim>\<open>_packetbuf\<close>, and the transport,
  given by the results of the \<^verbatim>\<open>read\<close> calls still to come (\<open>unread\<close>; once they are used up
  a read returns no bytes, as a serial read that times out does) and by what has been
  written and slept so far (\<open>trace\<close>).
\<close>

record client =
  packetbuf :: "byte list"
  unread :: "byte list list"
  trace :: "event list"

text \<open>
  An operation on the client takes the state and either never returns (\<open>None\<close>) or returns
  a value or a raised error together with the state it leaves behind.
\<close>

type_synonym 'a action = "client \<Rightarrow> ((error + 'a) \<times> client) option"

definition return :: "'a \<Rightarrow> 'a action" where
  "return x s = Some (Inr x, s)"

definition raise :: "error \<Rightarrow> 'a action" where
  "raise e s = Some (Inl e, s)"

definition lift :: "error + 'a \<Rightarrow> 'a action" where
  "lift r s = Some (r, s)"

definition seq :: "'a action \<Rightarrow> ('a \<Rightarrow> 'b action) \<Rightarrow> 'b action" where
  "seq m f s =
     (case m s of
        None \<Rightarrow> None
      | Some (Inl e, s') \<Rightarrow> Some (Inl e, s')
      | Some (Inr x, s') \<Rightarrow> f x s')"

text \<open>
  \<^verbatim>\<open>transport.read(n)\<close> returns what has arrived, at most \<open>n\<close> bytes of it; the bytes beyond
  \<open>n\<close> wait for the next read.
\<close>

definition transport_read :: "nat \<Rightarrow> client \<Rightarrow> byte list \<times> client" where
  "transport_read n s =
     (case unread s of
        [] \<Rightarrow> ([], s)
      | bs # rest \<Rightarrow>
          if length bs \<le> n then (bs, s\<lparr>unread := rest\<rparr>)
          else (take n bs, s\<lparr>unread := drop n bs # rest\<rparr>))"

definition transport_write :: "byte list \<Rightarrow> unit action" where
  "transport_write bs s = Some (Inr (), s\<lparr>trace := trace s @ [Wrote bs]\<rparr>)"

definition sleep :: "unit action" where
  "sleep s = Some (Inr (), s\<lparr>trace := trace s @ [Slept]\<rparr>)"

section \<open>Request codes and info keys\<close>

definition DENSITY :: int where "DENSITY = 1"
definition PRINTSPEED :: int where "PRINTSPEED = 2"
definition LABELTYPE :: int where "LABELTYPE = 3"
definition LANGUAGETYPE :: int where "LANGUAGETYPE = 6"
definition AUTOSHUTDOWNTIME :: int where "AUTOSHUTDOWNTIME = 7"
definition DEVICETYPE :: int where "DEVICETYPE = 8"
definition SOFTVERSION :: int where "SOFTVERSION = 9"
definition BATTERY :: int where "BATTERY = 10"
definition DEVICESERIAL :: int where "DEVICESERIAL = 11"
definition HARDVERSION :: int where "HARDVERSION = 12"

definition GET_INFO :: int where "GET_INFO = 64"
definition GET_RFID :: int where "GET_RFID = 26"
definition HEARTBEAT :: int where "HEARTBEAT = 220"
definition SET_LABEL_TYPE :: int where "SET_LABEL_TYPE = 35"
definition SET_LABEL_DENSITY :: int where "SET_LABEL_DENSITY = 33"
definition START_PRINT :: int where "START_PRINT = 1"
definition END_PRINT :: int where "END_PRINT = 243"
definition START_PAGE_PRINT :: int where "START_PAGE_PRINT = 3"
definition END_PAGE_PRINT :: int where "END_PAGE_PRINT = 227"
definition ALLOW_PRINT_CLEAR :: int where "ALLOW_PRINT_CLEAR = 32"
definition SET_DIMENSION :: int where "SET_DIMENSION = 19"
definition SET_QUANTITY :: int where "SET_QUANTITY = 21"
definition GET_PRINT_STATUS :: int where "GET_PRINT_STATUS = 163"

section \<open>Python library functions used by the client\<close>

text \<open>\<^verbatim>\<open>bytes((n,))\<close>: a one-byte string, \<^verbatim>\<open>ValueError\<close> outside \<open>0..255\<close>.\<close>

definition bytes1 :: "int \<Rightarrow> error + byte list" where
  "bytes1 n = (if 0 \<le> n \<and> n < 256 then Inr [word_of_int n] else Inl ValueError)"

text \<open>\<^verbatim>\<open>int.from_bytes(x.data, "big")\<close>.\<close>

definition packet_to_int :: "packet \<Rightarrow> int" where
  "packet_to_int x = foldl (\<lambda>acc b. acc * 256 + uint b) 0 (data x)"

text \<open>One big-endian unsigned 16-bit field of \<^verbatim>\<open>struct.pack\<close> (format \<^verbatim>\<open>H\<close>).\<close>

definition pack_H :: "int \<Rightarrow> error + byte list" where
  "pack_H v =
     (if 0 \<le> v \<and> v < 65536 then Inr [word_of_int (v div 256), word_of_int (v mod 256)]
      else Inl StructError)"

text \<open>One unsigned 8-bit field of \<^verbatim>\<open>struct.pack\<close> (format \<^verbatim>\<open>B\<close>).\<close>

definition pack_B :: "int \<Rightarrow> error + byte list" where
  "pack_B v = (if 0 \<le> v \<and> v < 256 then Inr [word_of_int v] else Inl StructError)"

text \<open>\<^verbatim>\<open>struct.pack(">HH", w, h)\<close>.\<close>

definition pack_HH :: "int \<Rightarrow> int \<Rightarrow> error + byte list" where
  "pack_HH w h =
     (case pack_H w of
        Inl e \<Rightarrow> Inl e
      | Inr a \<Rightarrow> (case pack_H h of Inl e \<Rightarrow> Inl e | Inr b \<Rightarrow> Inr (a @ b)))"

text \<open>\<^verbatim>\<open>struct.pack(">H3BB", y, c0, c1, c2, m)\<close>.\<close>

definition pack_H3BB :: "int \<Rightarrow> int \<Rightarrow> int \<Rightarrow> int \<Rightarrow> int \<Rightarrow> error + byte list" where
  "pack_H3BB y c0 c1 c2 m =
     (case pack_H y of Inl e \<Rightarrow> Inl e | Inr a \<Rightarrow>
     (case pack_B c0 of Inl e \<Rightarrow> Inl e | Inr b0 \<Rightarrow>
     (case pack_B c1 of Inl e \<Rightarrow> Inl e | Inr b1 \<Rightarrow>
     (case pack_B c2 of Inl e \<Rightarrow> Inl e | Inr b2 \<Rightarrow>
     (case pack_B m of Inl e \<Rightarrow> Inl e | Inr b3 \<Rightarrow> Inr (a @ b0 @ b1 @ b2 @ b3))))))"

text \<open>
  \<^verbatim>\<open>int(s, 2)\<close> on a string of the characters \<^verbatim>\<open>0\<close> and \<^verbatim>\<open>1\<close>, the only strings the
  encoder builds: the empty string is rejected with \<^verbatim>\<open>ValueError\<close>.
\<close>

definition int_base2 :: "string \<Rightarrow> error + int" where
  "int_base2 s =
     (if s = [] \<or> \<not> list_all (\<lambda>ch. ch = CHR ''0'' \<or> ch = CHR ''1'') s then Inl ValueError
      else Inr (foldl (\<lambda>acc ch. 2 * acc + (if ch = CHR ''1'' then 1 else 0)) 0 s))"

text \<open>\<^verbatim>\<open>v.to_bytes(n, "big")\<close> for a non-negative \<open>v\<close>.\<close>

fun big_endian :: "nat \<Rightarrow> int \<Rightarrow> byte list" where
  "big_endian 0 v = []"
| "big_endian (Suc n) v = big_endian n (v div 256) @ [word_of_int (v mod 256)]"

definition int_to_bytes :: "int \<Rightarrow> nat \<Rightarrow> error + byte list" where
  "int_to_bytes v n = (if 0 \<le> v \<and> v < 256 ^ n then Inr (big_endian n v) else Inl OverflowError)"

section \<open>The transceiver\<close>

text \<open>
  The \<^verbatim>\<open>while len(self._packetbuf) > 4\<close> loop of \<^verbatim>\<open>_recv\<close>.  When the buffer holds more than
  four bytes but not yet the whole frame, the body changes nothing and the loop goes round
  again.  \<^verbatim>\<open>packet.to_bytes()\<close> is evaluated for the log line.
\<close>

partial_function (option) recv_loop ::
  "codec \<Rightarrow> packet list \<Rightarrow> client \<Rightarrow> ((error + packet list) \<times> client) option" where
  "recv_loop c packets s =
     (if length (packetbuf s) > 4 then
        (let pkt_len = unat (packetbuf s ! 3) + 7 in
         if length (packetbuf s) \<ge> pkt_len then
           (case from_bytes c (take pkt_len (packetbuf s)) of
              Inl e \<Rightarrow> Some (Inl e, s)
            | Inr packet \<Rightarrow>
                (case to_bytes c packet of
                   Inl e \<Rightarrow> Some (Inl e, s)
                 | Inr logged \<Rightarrow>
                     recv_loop c (packets @ [packet])
                       (s\<lparr>packetbuf := drop pkt_len (packetbuf s)\<rparr>)))
         else recv_loop c packets s)
      else Some (Inr packets, s))"

declare recv_loop.simps [code]

definition recv :: "codec \<Rightarrow> packet list action" where
  "recv c s =
     (case transport_read 1024 s of
        (bs, s1) \<Rightarrow> recv_loop c [] (s1\<lparr>packetbuf := packetbuf s1 @ bs\<rparr>))"

definition send :: "codec \<Rightarrow> packet \<Rightarrow> unit action" where
  "send c pkt = seq (lift (to_bytes c pkt)) transport_write"

text \<open>
  The inner loop of \<^verbatim>\<open>_transceive\<close> over the frames of one \<^verbatim>\<open>_recv\<close>: \<open>resp\<close> is the
  variable of that name.
\<close>

fun scan :: "int \<Rightarrow> packet option \<Rightarrow> packet list \<Rightarrow> error + packet option" where
  "scan respcode resp [] = Inr resp"
| "scan respcode resp (p # ps) =
     (if type p = 219 then Inl ValueError
      else if type p = 0 then Inl NotImplementedError
      else if type p = respcode then scan respcode (Some p) ps
      else scan respcode resp ps)"

text \<open>
  \<^verbatim>\<open>if resp:\<close> tests an object of class \<^verbatim>\<open>NiimbotPacket\<close> or \<^verbatim>\<open>None\<close>.  The class is a plain
  holder of the two fields, so every packet is true and only \<^verbatim>\<open>None\<close> is false.
\<close>

definition truthy :: "packet option \<Rightarrow> bool" where
  "truthy resp = (resp \<noteq> None)"

text \<open>The loop \<^verbatim>\<open>for _ in range(6)\<close> of \<^verbatim>\<open>_transceive\<close>, with the attempts left to go.\<close>

fun poll :: "codec \<Rightarrow> int \<Rightarrow> nat \<Rightarrow> packet option \<Rightarrow> packet option action" where
  "poll c respcode 0 resp s = return resp s"
| "poll c respcode (Suc n) resp s =
     seq (recv c) (\<lambda>packets.
     seq (lift (scan respcode resp packets)) (\<lambda>resp'.
       if truthy resp' then return resp'
       else seq sleep (\<lambda>_. poll c respcode n resp'))) s"

definition transceive :: "codec \<Rightarrow> int \<Rightarrow> byte list \<Rightarrow> int \<Rightarrow> packet option action" where
  "transceive c reqcode dat respoffset =
     (let respcode = respoffset + reqcode;
          pkt = \<lparr>type = reqcode, data = dat\<rparr>
      in seq (lift (to_bytes c pkt)) (\<lambda>logged.
         seq (send c pkt) (\<lambda>_.
         poll c respcode 6 None)))"

section \<open>Commands\<close>

text \<open>
  \<^verbatim>\<open>bool(packet.data[0])\<close>, the last line of every flag command.  A \<^verbatim>\<open>None\<close> reply has no
  attribute \<^verbatim>\<open>data\<close>, an empty payload has no first byte.
\<close>

definition data0_bool :: "packet option \<Rightarrow> error + bool" where
  "data0_bool resp =
     (case resp of
        None \<Rightarrow> Inl AttributeError
      | Some p \<Rightarrow> (case data p of [] \<Rightarrow> Inl IndexError | b # _ \<Rightarrow> Inr (b \<noteq> 0)))"

definition set_label_type :: "codec \<Rightarrow> int \<Rightarrow> bool action" where
  "set_label_type c n =
     (if 1 \<le> n \<and> n \<le> 3 then
        seq (lift (bytes1 n)) (\<lambda>d.
        seq (transceive c SET_LABEL_TYPE d 16) (\<lambda>resp. lift (data0_bool resp)))
      else raise AssertionError)"

definition set_label_density :: "codec \<Rightarrow> int \<Rightarrow> bool action" where
  "set_label_density c n =
     (if 1 \<le> n \<and> n \<le> 5 then
        seq (lift (bytes1 n)) (\<lambda>d.
        seq (transceive c SET_LABEL_DENSITY d 16) (\<lambda>resp. lift (data0_bool resp)))
      else raise AssertionError)"

definition start_print :: "codec \<Rightarrow> bool action" where
  "start_print c = seq (transceive c START_PRINT [1] 1) (\<lambda>resp. lift (data0_bool resp))"

definition end_print :: "codec \<Rightarrow> bool action" where
  "end_print c = seq (transceive c END_PRINT [1] 1) (\<lambda>resp. lift (data0_bool resp))"

definition start_page_print :: "codec \<Rightarrow> bool action" where
  "start_page_print c =
     seq (transceive c START_PAGE_PRINT [1] 1) (\<lambda>resp. lift (data0_bool resp))"

definition end_page_print :: "codec \<Rightarrow> bool action" where
  "end_page_print c =
     seq (transceive c END_PAGE_PRINT [1] 1) (\<lambda>resp. lift (data0_bool resp))"

definition allow_print_clear :: "codec \<Rightarrow> bool action" where
  "allow_print_clear c =
     seq (transceive c ALLOW_PRINT_CLEAR [1] 16) (\<lambda>resp. lift (data0_bool resp))"

definition set_dimension :: "codec \<Rightarrow> int \<Rightarrow> int \<Rightarrow> bool action" where
  "set_dimension c w h =
     seq (lift (pack_HH w h)) (\<lambda>d.
     seq (transceive c SET_DIMENSION d 1) (\<lambda>resp. lift (data0_bool resp)))"

definition set_quantity :: "codec \<Rightarrow> int \<Rightarrow> bool action" where
  "set_quantity c n =
     seq (lift (pack_H n)) (\<lambda>d.
     seq (transceive c SET_QUANTITY d 1) (\<lambda>resp. lift (data0_bool resp)))"

subsection \<open>The print status\<close>

text \<open>The dictionary returned by \<^verbatim>\<open>get_print_status\<close>.\<close>

record print_status =
  unknown0 :: int
  idle :: bool
  progress1 :: int
  progress2 :: int
  unknown1 :: int
  unknown2 :: int
  error :: bool
  error_code :: int
  open_paper_compartment :: bool
  unknown3 :: int
  unknown4 :: int
  unknown5 :: int

text \<open>
  The body of \<^verbatim>\<open>get_print_status\<close> after the reply has arrived:
  \<^verbatim>\<open>struct.unpack(">BBBBBBBBBB", packet.data)\<close> needs exactly ten bytes and binds them, in
  this order, to \<^verbatim>\<open>unknown0, idle, progress1, progress2, unknown1, unknown2, error, unknown3,
  unknown4, unknown5\<close>; then the assertion on \<^verbatim>\<open>idle\<close>.
\<close>

definition decode_print_status :: "packet option \<Rightarrow> error + print_status" where
  "decode_print_status resp =
     (case resp of
        None \<Rightarrow> Inl AttributeError
      | Some p \<Rightarrow>
          (case map uint (data p) of
             [u0, idl, p1, p2, u1, u2, err, u3, u4, u5] \<Rightarrow>
               if 0 \<le> idl \<and> idl \<le> 1 then
                 Inr \<lparr>unknown0 = u0, idle = (idl \<noteq> 0), progress1 = p1, progress2 = p2,
                      unknown1 = u1, unknown2 = u2, error = (err \<noteq> 0), error_code = err,
                      open_paper_compartment = (err = 1),
                      unknown3 = u3, unknown4 = u4, unknown5 = u5\<rparr>
               else Inl AssertionError
           | _ \<Rightarrow> Inl StructError))"

definition get_print_status :: "codec \<Rightarrow> print_status action" where
  "get_print_status c =
     seq (transceive c GET_PRINT_STATUS [1] 16) (\<lambda>resp. lift (decode_print_status resp))"

subsection \<open>Device information\<close>

text \<open>
  What \<^verbatim>\<open>get_info\<close> returns: the payload as a hex string (kept as its bytes), a version
  number (the integer that the source divides by 100), a plain integer, or \<^verbatim>\<open>None\<close>.
\<close>

datatype info = Hex "byte list" | Hundredths int | Plain int | NoInfo

text \<open>
  \<^verbatim>\<open>n / 100\<close> on a Python integer is a division into a float.  It raises \<^verbatim>\<open>OverflowError\<close>
  when the quotient, rounded to the nearest double, lies beyond the largest double
  \<open>2 ^ 1024 - 2 ^ 971\<close>, which is the case from \<open>100 * (2 ^ 1024 - 2 ^ 970)\<close> on; a payload of
  129 bytes can reach that.  Below it the result is kept as the integer that is divided.
\<close>

definition div_100 :: "int \<Rightarrow> error + info" where
  "div_100 n =
     (if 100 * (2 ^ 1024 - 2 ^ 970) \<le> \<bar>n\<bar> then Inl OverflowError else Inr (Hundredths n))"

definition get_info :: "codec \<Rightarrow> int \<Rightarrow> info action" where
  "get_info c key =
     seq (lift (bytes1 key)) (\<lambda>d.
     seq (transceive c GET_INFO d key) (\<lambda>resp.
       case resp of
         Some pkt \<Rightarrow>
           if key = DEVICESERIAL then return (Hex (data pkt))
           else if key = SOFTVERSION then lift (div_100 (packet_to_int pkt))
           else if key = HARDVERSION then lift (div_100 (packet_to_int pkt))
           else return (Plain (packet_to_int pkt))
       | None \<Rightarrow> return NoInfo))"

section \<open>The raster encoder\<close>

text \<open>
  An image in mode \<^verbatim>\<open>L\<close>: its size and the luminance of every pixel, \<open>0\<close> black and \<open>255\<close>
  white.  \<open>pixel img x y\<close> is \<^verbatim>\<open>img.getpixel((x, y))\<close>; the encoder reads it inside the image
  only.
\<close>

record image =
  width :: nat
  height :: nat
  pixel :: "nat \<Rightarrow> nat \<Rightarrow> byte"

text \<open>\<^verbatim>\<open>image.convert("L")\<close> copies an image that is in mode \<^verbatim>\<open>L\<close> already.\<close>

definition convert_L :: "image \<Rightarrow> image" where
  "convert_L img = img"

text \<open>\<^verbatim>\<open>ImageOps.invert\<close> replaces every luminance \<open>v\<close> by \<open>255 - v\<close>.\<close>

definition invert :: "image \<Rightarrow> image" where
  "invert img = img\<lparr>pixel := \<lambda>x y. 255 - pixel img x y\<rparr>"

text \<open>
  \<^verbatim>\<open>convert("1")\<close> with the imaging library's default, Floyd-Steinberg dithering: every
  pixel becomes \<open>0\<close> or \<open>255\<close> by comparing its luminance, plus the error diffused from the
  pixels before it, with \<open>128\<close>.  The library works on C integers: \<open>c_div\<close> is their
  division, which truncates, and \<open>clip8\<close> clamps to \<open>0..255\<close>.  \<open>errors\<close> holds one entry
  more than the row has pixels and is carried from each row to the next.
\<close>

definition c_div :: "int \<Rightarrow> int \<Rightarrow> int" where
  "c_div a b = (if (a < 0) = (b < 0) then \<bar>a\<bar> div \<bar>b\<bar> else - (\<bar>a\<bar> div \<bar>b\<bar>))"

definition clip8 :: "int \<Rightarrow> int" where
  "clip8 v = (if v \<le> 0 then 0 else if v < 256 then v else 255)"

fun dither_row :: "int list \<Rightarrow> nat \<Rightarrow> int \<Rightarrow> int \<Rightarrow> int \<Rightarrow> int list \<Rightarrow> int list \<times> int list" where
  "dither_row [] x l l0 l1 errors = ([], errors[x := l0])"
| "dither_row (v # vs) x l l0 l1 errors =
     (let l = clip8 (v + c_div (l + errors ! (x + 1)) 16);
          out = (if l > 128 then 255 else 0);
          l = l - out;
          l2 = l;
          d2 = l + l;
          l = l + d2;
          errors = errors[x := l + l0];
          l = l + d2;
          l0 = l + l1;
          l1 = l2;
          l = l + d2
      in case dither_row vs (Suc x) l l0 l1 errors of
           (outs, errors') \<Rightarrow> (out # outs, errors'))"

fun dither_rows :: "int list list \<Rightarrow> int list \<Rightarrow> int list list" where
  "dither_rows [] errors = []"
| "dither_rows (r # rs) errors =
     (case dither_row r 0 0 0 0 errors of
        (outs, errors') \<Rightarrow> outs # dither_rows rs errors')"

definition convert_1 :: "image \<Rightarrow> image" where
  "convert_1 img =
     (let rows = map (\<lambda>y. map (\<lambda>x. uint (pixel img x y)) [0..<width img]) [0..<height img];
          outs = dither_rows rows (replicate (width img + 1) 0)
      in img\<lparr>pixel := \<lambda>x y. word_of_int (outs ! y ! x)\<rparr>)"

text \<open>
  The body of the \<^verbatim>\<open>for y\<close> loop of \<^verbatim>\<open>_encode_image\<close>: the packet of row \<open>y\<close>, or the error
  raised while building it.  \<^verbatim>\<open>math.ceil(img.width / 8)\<close> is \<open>(width + 7) div 8\<close>: the
  imaging library keeps a width below \<open>2 ^ 31\<close>, where the float division is exact.
\<close>

definition encode_row :: "image \<Rightarrow> nat \<Rightarrow> error + packet" where
  "encode_row img y =
     (let line_data = map (\<lambda>x. pixel img x y) [0..<width img];
          line_str = map (\<lambda>pix. if pix = 0 then CHR ''0'' else CHR ''1'') line_data
      in case int_base2 line_str of
           Inl e \<Rightarrow> Inl e
         | Inr v \<Rightarrow>
            (case int_to_bytes v ((width img + 7) div 8) of
               Inl e \<Rightarrow> Inl e
             | Inr line_bytes \<Rightarrow>
                (case pack_H3BB (int y) 0 0 0 1 of
                   Inl e \<Rightarrow> Inl e
                 | Inr header \<Rightarrow> Inr \<lparr>type = 0x85, data = header @ line_bytes\<rparr>)))"

text \<open>
  \<^verbatim>\<open>_encode_image\<close> is a generator: the list holds, for every row from the top, what asking
  the generator for that row gives.  A consumer stops at the first error.
\<close>

definition encode_image :: "image \<Rightarrow> (error + packet) list" where
  "encode_image img0 =
     (let img = convert_1 (invert (convert_L img0))
      in map (encode_row img) [0..<height img])"

section \<open>The print session\<close>

text \<open>\<^verbatim>\<open>for pkt in self._encode_image(image): self._send(pkt)\<close>.\<close>

fun send_all :: "codec \<Rightarrow> (error + packet) list \<Rightarrow> unit action" where
  "send_all c [] s = return () s"
| "send_all c (r # rs) s =
     (case r of
        Inl e \<Rightarrow> raise e s
      | Inr pkt \<Rightarrow> seq (send c pkt) (\<lambda>_. send_all c rs) s)"

text \<open>The loop \<^verbatim>\<open>while True\<close> of \<^verbatim>\<open>print_image\<close>, left when the status says idle.\<close>

partial_function (option) wait_idle :: "codec \<Rightarrow> client \<Rightarrow> ((error + unit) \<times> client) option" where
  "wait_idle c s =
     (case get_print_status c s of
        None \<Rightarrow> None
      | Some (Inl e, s') \<Rightarrow> Some (Inl e, s')
      | Some (Inr printer_status, s') \<Rightarrow>
          if idle printer_status then Some (Inr (), s') else wait_idle c s')"

declare wait_idle.simps [code]

text \<open>The loop \<^verbatim>\<open>while not self.end_print(): time.sleep(0.1)\<close>.\<close>

partial_function (option) end_print_loop :: "codec \<Rightarrow> client \<Rightarrow> ((error + unit) \<times> client) option" where
  "end_print_loop c s =
     (case end_print c s of
        None \<Rightarrow> None
      | Some (Inl e, s') \<Rightarrow> Some (Inl e, s')
      | Some (Inr ok, s') \<Rightarrow>
          if \<not> ok then
            (case sleep s' of
               None \<Rightarrow> None
             | Some (Inl e, s'') \<Rightarrow> Some (Inl e, s'')
             | Some (Inr u, s'') \<Rightarrow> end_print_loop c s'')
          else Some (Inr (), s'))"

declare end_print_loop.simps [code]

definition print_image :: "codec \<Rightarrow> image \<Rightarrow> int \<Rightarrow> unit action" where
  "print_image c img density =
     seq (set_label_density c density) (\<lambda>_.
     seq (set_label_type c 1) (\<lambda>_.
     seq (start_print c) (\<lambda>_.
     seq (start_page_print c) (\<lambda>_.
     seq (set_dimension c (int (height img)) (int (width img))) (\<lambda>_.
     seq (send_all c (encode_image img)) (\<lambda>_.
     seq (end_page_print c) (\<lambda>_.
     seq (wait_idle c) (\<lambda>_.
     end_print_loop c))))))))"

section \<open>A concrete packet codec\<close>

text \<open>
  Modelled from the spec: the class \<^verbatim>\<open>NiimbotPacket\<close> of the module \<^verbatim>\<open>packet\<close>, which is not
  among the sources.  The specification fixes that a frame carries header markers, the
  type, the payload length in byte 3, the payload, a checksum over it and trailer markers,
  seven bytes besides the payload; that a payload of more than 255 bytes cannot be
  serialised; and that decoding validates the frame.  This instance takes two marker bytes
  \<open>0x55\<close>, the type, the length, the payload, the exclusive-or of type, length and payload,
  and two marker bytes \<open>0xAA\<close>.  It serves the closed examples; the general theorems hold
  for every codec.
\<close>

text \<open>Modelled from the spec: the checksum byte of a frame of \<^verbatim>\<open>NiimbotPacket\<close>.\<close>

definition checksum :: "byte \<Rightarrow> byte list \<Rightarrow> byte" where
  "checksum t d = foldl (\<lambda>acc b. xor acc b) (xor t (word_of_nat (length d))) d"

text \<open>Modelled from the spec: \<^verbatim>\<open>NiimbotPacket.to_bytes\<close>, which is not among the sources.\<close>

definition niimbot_to_bytes :: "packet \<Rightarrow> error + byte list" where
  "niimbot_to_bytes p =
     (if 0 \<le> type p \<and> type p < 256 \<and> length (data p) < 256 then
        Inr ([0x55, 0x55, word_of_int (type p), word_of_nat (length (data p))] @ data p
             @ [checksum (word_of_int (type p)) (data p), 0xAA, 0xAA])
      else Inl ValueError)"

text \<open>Modelled from the spec: \<^verbatim>\<open>NiimbotPacket.from_bytes\<close>, which is not among the sources.\<close>

definition niimbot_from_bytes :: "byte list \<Rightarrow> error + packet" where
  "niimbot_from_bytes pkt =
     (if length pkt < 7 \<or> take 2 pkt \<noteq> [0x55, 0x55] \<or> drop (length pkt - 2) pkt \<noteq> [0xAA, 0xAA]
      then Inl AssertionError
      else
        (let ty = pkt ! 2;
             len = unat (pkt ! 3);
             d = take len (drop 4 pkt)
         in if checksum ty d = pkt ! (length pkt - 3)
            then Inr \<lparr>type = uint ty, data = d\<rparr>
            else Inl AssertionError))"

text \<open>Modelled from the spec: the two conversions of \<^verbatim>\<open>NiimbotPacket\<close> as a codec.\<close>

definition niimbot :: codec where
  "niimbot = \<lparr>to_bytes = niimbot_to_bytes, from_bytes = niimbot_from_bytes\<rparr>"

text \<open>The bytes of the frame of type \<open>t\<close> with payload \<open>d\<close> under this codec.\<close>

definition frame :: "int \<Rightarrow> byte list \<Rightarrow> byte list" where
  "frame t d = (case niimbot_to_bytes \<lparr>type = t, data = d\<rparr> of Inr bs \<Rightarrow> bs | Inl e \<Rightarrow> [])"

section \<open>Polling attempts that go on\<close>

text \<open>
  \<open>attempts c n s\<close> runs \<open>n\<close> rounds of \<^verbatim>\<open>_recv\<close> followed by \<^verbatim>\<open>time.sleep(0.1)\<close> from the
  state \<open>s\<close>, and gives the batches of frames that the rounds returned with the state after
  the last sleep.  It is \<open>None\<close> when one of the rounds does not return a batch.  A round of
  the polling loop of \<^verbatim>\<open>_transceive\<close> is such a round exactly when the batch holds no frame
  that the loop reacts to.
\<close>

fun attempts :: "codec \<Rightarrow> nat \<Rightarrow> client \<Rightarrow> (packet list list \<times> client) option" where
  "attempts c 0 s = Some ([], s)"
| "attempts c (Suc n) s =
     (case recv c s of
        Some (Inr packets, s1) \<Rightarrow>
          (case sleep s1 of
             Some (Inr u, s2) \<Rightarrow>
               (case attempts c n s2 of
                  Some (batches, s3) \<Rightarrow> Some (packets # batches, s3)
                | None \<Rightarrow> None)
           | _ \<Rightarrow> None)
      | _ \<Rightarrow> None)"

text \<open>A frame that the polling loop for \<open>respcode\<close> passes over.\<close>

definition irrelevant :: "int \<Rightarrow> packet \<Rightarrow> bool" where
  "irrelevant respcode p = (type p \<noteq> 219 \<and> type p \<noteq> 0 \<and> type p \<noteq> respcode)"

section \<open>Properties of the receive loop\<close>

lemma recv_loop_done:
  "length (packetbuf s) \<le> 4 \<Longrightarrow> recv_loop c packets s = Some (Inr packets, s)"
  by (subst recv_loop.simps) simp

lemma recv_loop_frame:
  assumes "4 < length (packetbuf s)"
    and "unat (packetbuf s ! 3) + 7 \<le> length (packetbuf s)"
    and "from_bytes c (take (unat (packetbuf s ! 3) + 7) (packetbuf s)) = Inr p"
    and "to_bytes c p = Inr logged"
  shows "recv_loop c packets s =
         recv_loop c (packets @ [p])
           (s\<lparr>packetbuf := drop (unat (packetbuf s ! 3) + 7) (packetbuf s)\<rparr>)"
  using assms by (subst recv_loop.simps) (simp add: Let_def)

text \<open>
  A buffer of more than four bytes that does not yet hold the frame announced by its
  length byte: the loop never ends.
\<close>

lemma recv_loop_not_stuck:
  assumes ret: "recv_loop c packets s = Some y"
  shows "\<not> (4 < length (packetbuf s) \<and> length (packetbuf s) < unat (packetbuf s ! 3) + 7)"
proof (rule recv_loop.raw_induct
    [where P = "\<lambda>c packets s y.
       \<not> (4 < length (packetbuf s) \<and> length (packetbuf s) < unat (packetbuf s ! 3) + 7)",
     OF _ ret])
  fix f :: "codec \<Rightarrow> packet list \<Rightarrow> client \<Rightarrow> ((error + packet list) \<times> client) option"
  fix c packets s y
  assume IH: "\<And>c packets s y. f c packets s = Some y \<Longrightarrow>
      \<not> (4 < length (packetbuf s) \<and> length (packetbuf s) < unat (packetbuf s ! 3) + 7)"
  assume body: "(if 4 < length (packetbuf s)
        then let pkt_len = unat (packetbuf s ! 3) + 7
             in if pkt_len \<le> length (packetbuf s)
                then case from_bytes c (take pkt_len (packetbuf s)) of
                     Inl e \<Rightarrow> Some (Inl e, s)
                     | Inr packet \<Rightarrow>
                         case to_bytes c packet of Inl e \<Rightarrow> Some (Inl e, s)
                         | Inr logged \<Rightarrow>
                             f c (packets @ [packet])
                              (s\<lparr>packetbuf := drop pkt_len (packetbuf s)\<rparr>)
                else f c packets s
        else Some (Inr packets, s)) = Some y"
  show "\<not> (4 < length (packetbuf s) \<and> length (packetbuf s) < unat (packetbuf s ! 3) + 7)"
  proof
    assume stuck: "4 < length (packetbuf s) \<and> length (packetbuf s) < unat (packetbuf s ! 3) + 7"
    with body have "f c packets s = Some y"
      by (simp add: Let_def)
    from IH [OF this] stuck show False by simp
  qed
qed

lemma recv_loop_stuck:
  assumes "4 < length (packetbuf s)"
    and "length (packetbuf s) < unat (packetbuf s ! 3) + 7"
  shows "recv_loop c packets s = None"
  using assms recv_loop_not_stuck [of c packets s] by (cases "recv_loop c packets s") auto

text \<open>The loop touches the buffer only.\<close>

lemma recv_loop_keeps:
  assumes ret: "recv_loop c packets s = Some y"
  shows "trace (snd y) = trace s \<and> unread (snd y) = unread s"
proof (rule recv_loop.raw_induct
    [where P = "\<lambda>c packets s y. trace (snd y) = trace s \<and> unread (snd y) = unread s",
     OF _ ret])
  fix f :: "codec \<Rightarrow> packet list \<Rightarrow> client \<Rightarrow> ((error + packet list) \<times> client) option"
  fix c packets s y
  assume IH: "\<And>c packets s y. f c packets s = Some y \<Longrightarrow>
      trace (snd y) = trace s \<and> unread (snd y) = unread s"
  assume body: "(if 4 < length (packetbuf s)
        then let pkt_len = unat (packetbuf s ! 3) + 7
             in if pkt_len \<le> length (packetbuf s)
                then case from_bytes c (take pkt_len (packetbuf s)) of
                     Inl e \<Rightarrow> Some (Inl e, s)
                     | Inr packet \<Rightarrow>
                         case to_bytes c packet of Inl e \<Rightarrow> Some (Inl e, s)
                         | Inr logged \<Rightarrow>
                             f c (packets @ [packet])
                              (s\<lparr>packetbuf := drop pkt_len (packetbuf s)\<rparr>)
                else f c packets s
        else Some (Inr packets, s)) = Some y"
  from body show "trace (snd y) = trace s \<and> unread (snd y) = unread s"
    by (auto simp: Let_def split: if_splits sum.splits dest: IH)
qed

lemma recv_trace: "recv c s = Some (r, s') \<Longrightarrow> trace s' = trace s"
  by (auto simp: recv_def transport_read_def split: list.splits if_splits dest: recv_loop_keeps)

text \<open>
  C4.  The start-print reply \<open>55 55 02 01 01 02 AA AA\<close> arrives one byte per read.  The
  first four calls of \<^verbatim>\<open>_recv\<close> return no frame and keep the bytes.  The fifth call reads
  the fifth byte, finds more than four bytes in the buffer and fewer than the \<open>1 + 7\<close> that
  the length byte announces, and never returns: the frame is never emitted.  This holds
  for every codec, since no frame is decoded on the way.
\<close>

theorem recv_one_byte_per_read_never_returns:
  "recv c \<lparr>packetbuf = [], unread = [[0x55], [0x55], [2], [1], [1], [2], [0xAA], [0xAA]],
           trace = []\<rparr>
     = Some (Inr [], \<lparr>packetbuf = [0x55],
                      unread = [[0x55], [2], [1], [1], [2], [0xAA], [0xAA]], trace = []\<rparr>)
   \<and> recv c \<lparr>packetbuf = [0x55], unread = [[0x55], [2], [1], [1], [2], [0xAA], [0xAA]],
             trace = []\<rparr>
     = Some (Inr [], \<lparr>packetbuf = [0x55, 0x55],
                      unread = [[2], [1], [1], [2], [0xAA], [0xAA]], trace = []\<rparr>)
   \<and> recv c \<lparr>packetbuf = [0x55, 0x55], unread = [[2], [1], [1], [2], [0xAA], [0xAA]],
             trace = []\<rparr>
     = Some (Inr [], \<lparr>packetbuf = [0x55, 0x55, 2],
                      unread = [[1], [1], [2], [0xAA], [0xAA]], trace = []\<rparr>)
   \<and> recv c \<lparr>packetbuf = [0x55, 0x55, 2], unread = [[1], [1], [2], [0xAA], [0xAA]],
             trace = []\<rparr>
     = Some (Inr [], \<lparr>packetbuf = [0x55, 0x55, 2, 1],
                      unread = [[1], [2], [0xAA], [0xAA]], trace = []\<rparr>)
   \<and> recv c \<lparr>packetbuf = [0x55, 0x55, 2, 1], unread = [[1], [2], [0xAA], [0xAA]],
             trace = []\<rparr>
     = None"
  by (simp add: recv_def transport_read_def recv_loop_done recv_loop_stuck)

section \<open>The status reply\<close>

lemma uint_eq_1_iff: "uint e = 1 \<longleftrightarrow> e = 1" for e :: byte
proof
  assume "uint e = 1"
  then have "uint e = uint (1 :: byte)" by simp
  then show "e = 1" by (simp only: word_uint_eq_iff [symmetric])
qed simp

lemma byte_le_1_cases: "idl \<le> 1 \<Longrightarrow> idl = 0 \<or> idl = 1" for idl :: byte
proof -
  assume "idl \<le> 1"
  then have "uint idl \<le> 1" by (simp add: word_le_def)
  moreover have "0 \<le> uint idl" by simp
  ultimately have "uint idl = 0 \<or> uint idl = 1" by arith
  then show ?thesis
    by (simp add: uint_0_iff uint_eq_1_iff)
qed

text \<open>
  C2, as stated, fails: in the payload \<open>[0,0,1,5,10,0,0,0,0,0]\<close> the idle flag is the
  second byte, which is \<open>0\<close>, so the decoded status is not idle.
\<close>

theorem status_decode_example_not_idle:
  "map_sum id idle
     (decode_print_status (Some \<lparr>type = 179, data = [0, 0, 1, 5, 10, 0, 0, 0, 0, 0]\<rparr>))
   = Inr False"
  by (simp add: decode_print_status_def)

text \<open>
  C2, amended.  The ten bytes of the status payload are, in order: one reserved byte, the
  idle flag, the two progress counters, two reserved bytes, the error code and three
  reserved bytes.  Decoding \<open>[0,0,1,5,10,0,0,0,0,0]\<close> gives idle false, progress counters
  \<open>1\<close> and \<open>5\<close> and no error; and every payload of ten bytes whose second byte is \<open>0\<close> or
  \<open>1\<close> is decoded by these positions.
\<close>

theorem status_decode_layout:
  "decode_print_status (Some \<lparr>type = 179, data = [0, 0, 1, 5, 10, 0, 0, 0, 0, 0]\<rparr>)
     = Inr \<lparr>unknown0 = 0, idle = False, progress1 = 1, progress2 = 5, unknown1 = 10,
            unknown2 = 0, error = False, error_code = 0, open_paper_compartment = False,
            unknown3 = 0, unknown4 = 0, unknown5 = 0\<rparr>
   \<and> (\<forall>t u0 idl p1 p2 u1 u2 err u3 u4 u5.
        idl \<le> 1 \<longrightarrow>
        decode_print_status (Some \<lparr>type = t, data = [u0, idl, p1, p2, u1, u2, err, u3, u4, u5]\<rparr>)
          = Inr \<lparr>unknown0 = uint u0, idle = (idl = 1), progress1 = uint p1,
                 progress2 = uint p2, unknown1 = uint u1, unknown2 = uint u2,
                 error = (err \<noteq> 0), error_code = uint err,
                 open_paper_compartment = (err = 1),
                 unknown3 = uint u3, unknown4 = uint u4, unknown5 = uint u5\<rparr>)"
proof (intro conjI allI impI)
  show "decode_print_status (Some \<lparr>type = 179, data = [0, 0, 1, 5, 10, 0, 0, 0, 0, 0]\<rparr>)
     = Inr \<lparr>unknown0 = 0, idle = False, progress1 = 1, progress2 = 5, unknown1 = 10,
            unknown2 = 0, error = False, error_code = 0, open_paper_compartment = False,
            unknown3 = 0, unknown4 = 0, unknown5 = 0\<rparr>"
    by (simp add: decode_print_status_def)
next
  fix t :: int and u0 idl p1 p2 u1 u2 err u3 u4 u5 :: byte
  assume le: "idl \<le> 1"
  have "idl = 0 \<or> idl = 1"
    by (rule byte_le_1_cases [OF le])
  moreover have "uint err = 1 \<longleftrightarrow> err = 1"
    by (rule uint_eq_1_iff)
  ultimately show "decode_print_status
      (Some \<lparr>type = t, data = [u0, idl, p1, p2, u1, u2, err, u3, u4, u5]\<rparr>)
      = Inr \<lparr>unknown0 = uint u0, idle = (idl = 1), progress1 = uint p1,
             progress2 = uint p2, unknown1 = uint u1, unknown2 = uint u2,
             error = (err \<noteq> 0), error_code = uint err,
             open_paper_compartment = (err = 1),
             unknown3 = uint u3, unknown4 = uint u4, unknown5 = uint u5\<rparr>"
    by (auto simp: decode_print_status_def uint_0_iff)
qed

theorem status_decode_layout_witness:
  "(1 :: byte) \<le> 1
   \<and> decode_print_status (Some \<lparr>type = 179, data = [0, 1, 2, 3, 0, 0, 1, 0, 0, 0]\<rparr>)
     = Inr \<lparr>unknown0 = 0, idle = True, progress1 = 2, progress2 = 3, unknown1 = 0,
            unknown2 = 0, error = True, error_code = 1, open_paper_compartment = True,
            unknown3 = 0, unknown4 = 0, unknown5 = 0\<rparr>"
proof -
  have h: "(1 :: byte) \<le> 1" by simp
  from status_decode_layout
  have "\<forall>t u0 idl p1 p2 u1 u2 err u3 u4 u5.
        idl \<le> 1 \<longrightarrow>
        decode_print_status (Some \<lparr>type = t, data = [u0, idl, p1, p2, u1, u2, err, u3, u4, u5]\<rparr>)
          = Inr \<lparr>unknown0 = uint u0, idle = (idl = 1), progress1 = uint p1,
                 progress2 = uint p2, unknown1 = uint u1, unknown2 = uint u2,
                 error = (err \<noteq> 0), error_code = uint err,
                 open_paper_compartment = (err = 1),
                 unknown3 = uint u3, unknown4 = uint u4, unknown5 = uint u5\<rparr>"
    by (rule conjunct2)
  then have "decode_print_status (Some \<lparr>type = 179, data = [0, 1, 2, 3, 0, 0, 1, 0, 0, 0]\<rparr>)
          = Inr \<lparr>unknown0 = uint (0 :: byte), idle = ((1 :: byte) = 1), progress1 = uint (2 :: byte),
                 progress2 = uint (3 :: byte), unknown1 = uint (0 :: byte), unknown2 = uint (0 :: byte),
                 error = ((1 :: byte) \<noteq> 0), error_code = uint (1 :: byte),
                 open_paper_compartment = ((1 :: byte) = 1),
                 unknown3 = uint (0 :: byte), unknown4 = uint (0 :: byte), unknown5 = uint (0 :: byte)\<rparr>"
    using h by blast
  then show ?thesis by simp
qed

section \<open>The raster encoder on pure images\<close>

text \<open>
  C8.  An image of eight pixels in one row that is pure white (luminance 255) is encoded
  as exactly one row packet, of type \<open>0x85\<close>, whose payload is the six header bytes (row 0,
  three zero counters, the marker 1) followed by the single row byte \<open>0x00\<close>; the pure
  black image gives the row byte \<open>0xFF\<close>.
\<close>

theorem raster_white_black:
  "encode_image \<lparr>width = 8, height = 1, pixel = \<lambda>x y. 255\<rparr>
     = [Inr \<lparr>type = 0x85, data = [0, 0, 0, 0, 0, 1, 0x00]\<rparr>]
   \<and> encode_image \<lparr>width = 8, height = 1, pixel = \<lambda>x y. 0\<rparr>
     = [Inr \<lparr>type = 0x85, data = [0, 0, 0, 0, 0, 1, 0xFF]\<rparr>]"
  by code_simp

section \<open>Sequencing\<close>

lemma seq_Some_Inr: "m s = Some (Inr x, s') \<Longrightarrow> seq m f s = f x s'"
  by (simp add: seq_def)

lemma seq_Some_Inl: "m s = Some (Inl e, s') \<Longrightarrow> seq m f s = Some (Inl e, s')"
  by (simp add: seq_def)

lemma seq_None: "m s = None \<Longrightarrow> seq m f s = None"
  by (simp add: seq_def)

section \<open>Properties of the polling loop\<close>

lemma scan_no_error:
  "\<forall>p \<in> set ps. type p \<noteq> 219 \<and> type p \<noteq> 0 \<Longrightarrow>
   scan respcode resp ps =
     Inr (if filter (\<lambda>p. type p = respcode) ps = [] then resp
          else Some (last (filter (\<lambda>p. type p = respcode) ps)))"
  by (induction ps arbitrary: resp) auto

lemma scan_irrelevant:
  "\<forall>p \<in> set ps. irrelevant respcode p \<Longrightarrow> scan respcode resp ps = Inr resp"
  by (induction ps arbitrary: resp) (auto simp: irrelevant_def)

lemma scan_first_error:
  "\<forall>q \<in> set pre. type q \<noteq> 219 \<and> type q \<noteq> 0 \<Longrightarrow>
   scan respcode resp (pre @ p # post) =
     (if type p = 219 then Inl ValueError
      else if type p = 0 then Inl NotImplementedError
      else scan respcode (if filter (\<lambda>p. type p = respcode) (pre @ [p]) = [] then resp
          else Some (last (filter (\<lambda>p. type p = respcode) (pre @ [p])))) post)"
  by (induction pre arbitrary: resp) auto

lemma poll_Suc:
  "recv c s = Some (Inr ps, s') \<Longrightarrow>
   poll c respcode (Suc n) resp s =
     (case scan respcode resp ps of
        Inl e \<Rightarrow> Some (Inl e, s')
      | Inr r \<Rightarrow> if truthy r then Some (Inr r, s')
                 else poll c respcode n r (s'\<lparr>trace := trace s' @ [Slept]\<rparr>))"
  by (simp add: seq_def lift_def return_def sleep_def split: sum.splits)

lemma poll_attempts:
  "attempts c k s = Some (pss, s') \<Longrightarrow>
   \<forall>ps \<in> set pss. \<forall>p \<in> set ps. irrelevant respcode p \<Longrightarrow>
   poll c respcode (k + n) None s = poll c respcode n None s'"
proof (induction k arbitrary: s pss)
  case 0
  then show ?case by simp
next
  case (Suc k)
  from Suc.prems(1) obtain ps s1 rest where
    r: "recv c s = Some (Inr ps, s1)" and
    a: "attempts c k (s1\<lparr>trace := trace s1 @ [Slept]\<rparr>) = Some (rest, s')" and
    pss: "pss = ps # rest"
    by (auto simp: sleep_def split: option.splits sum.splits prod.splits)
  from Suc.prems(2) pss have irr: "\<forall>p \<in> set ps. irrelevant respcode p"
    and irr': "\<forall>ps \<in> set rest. \<forall>p \<in> set ps. irrelevant respcode p"
    by auto
  have "poll c respcode (Suc k + n) None s
      = poll c respcode (k + n) None (s1\<lparr>trace := trace s1 @ [Slept]\<rparr>)"
    using poll_Suc [OF r, of respcode "k + n" None] scan_irrelevant [OF irr, of None]
    by (simp add: truthy_def)
  also have "\<dots> = poll c respcode n None s'"
    by (rule Suc.IH [OF a irr'])
  finally show ?case .
qed

lemma attempts_trace:
  "attempts c k s = Some (pss, s') \<Longrightarrow> trace s' = trace s @ replicate k Slept"
proof (induction k arbitrary: s pss)
  case 0
  then show ?case by simp
next
  case (Suc k)
  from Suc.prems(1) obtain ps s1 rest where
    r: "recv c s = Some (Inr ps, s1)" and
    a: "attempts c k (s1\<lparr>trace := trace s1 @ [Slept]\<rparr>) = Some (rest, s')"
    by (auto simp: sleep_def split: option.splits sum.splits prod.splits)
  from Suc.IH [OF a] recv_trace [OF r] show ?case
    by (simp add: replicate_append_same)
qed

lemma transceive_poll:
  "to_bytes c \<lparr>type = reqcode, data = dat\<rparr> = Inr bs \<Longrightarrow>
   transceive c reqcode dat respoffset s =
     poll c (respoffset + reqcode) 6 None (s\<lparr>trace := trace s @ [Wrote bs]\<rparr>)"
  by (simp add: transceive_def send_def seq_def lift_def transport_write_def)

lemma transceive_attempt:
  assumes "to_bytes c \<lparr>type = reqcode, data = dat\<rparr> = Inr bs"
    and "attempts c k (s\<lparr>trace := trace s @ [Wrote bs]\<rparr>) = Some (pss, s1)"
    and "k < 6"
    and "\<forall>ps \<in> set pss. \<forall>p \<in> set ps. irrelevant (respoffset + reqcode) p"
  shows "transceive c reqcode dat respoffset s =
         poll c (respoffset + reqcode) (Suc (5 - k)) None s1"
proof -
  from \<open>k < 6\<close> have n: "6 = k + Suc (5 - k)" by simp
  have "transceive c reqcode dat respoffset s =
        poll c (respoffset + reqcode) 6 None (s\<lparr>trace := trace s @ [Wrote bs]\<rparr>)"
    by (rule transceive_poll [OF assms(1)])
  also have "\<dots> =
        poll c (respoffset + reqcode) (k + Suc (5 - k)) None (s\<lparr>trace := trace s @ [Wrote bs]\<rparr>)"
    by (simp only: n [symmetric])
  also have "\<dots> = poll c (respoffset + reqcode) (Suc (5 - k)) None s1"
    by (rule poll_attempts [OF assms(2) assms(4)])
  finally show ?thesis .
qed

lemma poll_batch_match:
  assumes "recv c s1 = Some (Inr ps, s2)"
    and "\<forall>p \<in> set ps. type p \<noteq> 219 \<and> type p \<noteq> 0"
    and "\<exists>p \<in> set ps. type p = respcode"
  shows "poll c respcode (Suc n) None s1 =
         Some (Inr (Some (last (filter (\<lambda>p. type p = respcode) ps))), s2)"
proof -
  from assms(3) have ne: "filter (\<lambda>p. type p = respcode) ps \<noteq> []"
    by (auto simp: filter_empty_conv)
  show ?thesis
    using poll_Suc [OF assms(1), of respcode n None]
      scan_no_error [OF assms(2), of respcode None] ne
    by (simp add: truthy_def)
qed

text \<open>
  C5.  A \<^verbatim>\<open>_transceive\<close> call has sent its request; \<open>k\<close> polling attempts (\<open>k < 6\<close>) have
  returned only frames the loop passes over; the next \<^verbatim>\<open>_recv\<close> returns the batch \<open>ps\<close>,
  which holds no frame of type 219 or 0 and at least one frame of the expected type
  \<open>respoffset + reqcode\<close>.  Then the call returns, in the state that this \<^verbatim>\<open>_recv\<close> left,
  the last frame of the expected type in the whole batch: frames of other types do not
  matter, wherever they stand, and of several expected frames the last one wins.
\<close>

theorem transceive_last_match:
  assumes "to_bytes c \<lparr>type = reqcode, data = dat\<rparr> = Inr bs"
    and "attempts c k (s\<lparr>trace := trace s @ [Wrote bs]\<rparr>) = Some (pss, s1)"
    and "k < 6"
    and "\<forall>ps \<in> set pss. \<forall>p \<in> set ps. irrelevant (respoffset + reqcode) p"
    and "recv c s1 = Some (Inr ps, s2)"
    and "\<forall>p \<in> set ps. type p \<noteq> 219 \<and> type p \<noteq> 0"
    and "\<exists>p \<in> set ps. type p = respoffset + reqcode"
  shows "transceive c reqcode dat respoffset s =
         Some (Inr (Some (last (filter (\<lambda>p. type p = respoffset + reqcode) ps))), s2)"
proof -
  have "transceive c reqcode dat respoffset s =
        poll c (respoffset + reqcode) (Suc (5 - k)) None s1"
    by (rule transceive_attempt [OF assms(1) assms(2) assms(3) assms(4)])
  also have "\<dots> =
        Some (Inr (Some (last (filter (\<lambda>p. type p = respoffset + reqcode) ps))), s2)"
    by (rule poll_batch_match [OF assms(5) assms(6) assms(7)])
  finally show ?thesis .
qed

theorem transceive_last_match_witness:
  "transceive niimbot START_PRINT [1] 1
     \<lparr>packetbuf = [], unread = [frame 221 [7], frame 2 [0] @ frame 221 [9] @ frame 2 [1]],
      trace = []\<rparr>
   = Some (Inr (Some \<lparr>type = 2, data = [1]\<rparr>),
           \<lparr>packetbuf = [], unread = [], trace = [Wrote (frame 1 [1]), Slept]\<rparr>)"
proof -
  let ?s = "\<lparr>packetbuf = [], unread = [frame 221 [7], frame 2 [0] @ frame 221 [9] @ frame 2 [1]],
      trace = []\<rparr>"
  let ?s1 = "\<lparr>packetbuf = [], unread = [frame 2 [0] @ frame 221 [9] @ frame 2 [1]],
      trace = [Wrote (frame 1 [1]), Slept]\<rparr>"
  let ?s2 = "\<lparr>packetbuf = [], unread = [], trace = [Wrote (frame 1 [1]), Slept]\<rparr>"
  let ?ps = "[\<lparr>type = 2, data = [0]\<rparr>, \<lparr>type = 221, data = [9]\<rparr>, \<lparr>type = 2, data = [1]\<rparr>]"
  have h1: "to_bytes niimbot \<lparr>type = START_PRINT, data = [1]\<rparr> = Inr (frame 1 [1])"
    by code_simp
  have h2: "attempts niimbot 1 (?s\<lparr>trace := trace ?s @ [Wrote (frame 1 [1])]\<rparr>)
            = Some ([[\<lparr>type = 221, data = [7]\<rparr>]], ?s1)"
    by code_simp
  have h3: "(1::nat) < 6" by simp
  have h4: "\<forall>ps \<in> set [[\<lparr>type = 221, data = [7]\<rparr>]]. \<forall>p \<in> set ps. irrelevant (1 + START_PRINT) p"
    by (simp add: irrelevant_def START_PRINT_def)
  have h5: "recv niimbot ?s1 = Some (Inr ?ps, ?s2)"
    by code_simp
  have h6: "\<forall>p \<in> set ?ps. type p \<noteq> 219 \<and> type p \<noteq> 0"
    by simp
  have h7: "\<exists>p \<in> set ?ps. type p = 1 + START_PRINT"
    by (simp add: START_PRINT_def)
  show ?thesis
    using transceive_last_match [OF h1 h2 h3 h4 h5 h6 h7]
    by (simp add: START_PRINT_def)
qed

text \<open>
  C6.  In the same situation the batch is \<open>pre @ p # post\<close>, where \<open>pre\<close> holds no frame
  of type 219 or 0, so that \<open>p\<close> is the first such frame the scan meets.  If \<open>p\<close> has type
  219 the call raises \<^verbatim>\<open>ValueError\<close>, if it has type 0 it raises \<^verbatim>\<open>NotImplementedError\<close>,
  in the state that this \<^verbatim>\<open>_recv\<close> left (nothing is read, written or slept afterwards),
  for every request code, payload and offset, and also when \<open>pre\<close> holds the expected
  reply.
\<close>

theorem transceive_error_frame:
  assumes "to_bytes c \<lparr>type = reqcode, data = dat\<rparr> = Inr bs"
    and "attempts c k (s\<lparr>trace := trace s @ [Wrote bs]\<rparr>) = Some (pss, s1)"
    and "k < 6"
    and "\<forall>ps \<in> set pss. \<forall>p \<in> set ps. irrelevant (respoffset + reqcode) p"
    and "recv c s1 = Some (Inr (pre @ p # post), s2)"
    and "\<forall>q \<in> set pre. type q \<noteq> 219 \<and> type q \<noteq> 0"
  shows "(type p = 219 \<longrightarrow>
            transceive c reqcode dat respoffset s = Some (Inl ValueError, s2))
       \<and> (type p = 0 \<longrightarrow>
            transceive c reqcode dat respoffset s = Some (Inl NotImplementedError, s2))"
proof -
  have t: "transceive c reqcode dat respoffset s =
        poll c (respoffset + reqcode) (Suc (5 - k)) None s1"
    by (rule transceive_attempt [OF assms(1) assms(2) assms(3) assms(4)])
  show ?thesis
    using poll_Suc [OF assms(5), of "respoffset + reqcode" "5 - k" None]
      scan_first_error [OF assms(6), of "respoffset + reqcode" None p post]
    by (simp add: t)
qed

theorem transceive_error_frame_witness:
  "transceive niimbot HEARTBEAT [1] 1
     \<lparr>packetbuf = [], unread = [frame 179 [7], frame 221 [1] @ frame 219 [] @ frame 221 [2]],
      trace = []\<rparr>
   = Some (Inl ValueError,
           \<lparr>packetbuf = [], unread = [], trace = [Wrote (frame 220 [1]), Slept]\<rparr>)
   \<and> transceive niimbot HEARTBEAT [1] 1
     \<lparr>packetbuf = [], unread = [frame 221 [1] @ frame 0 [5]], trace = []\<rparr>
   = Some (Inl NotImplementedError,
           \<lparr>packetbuf = [], unread = [], trace = [Wrote (frame 220 [1])]\<rparr>)"
proof -
  let ?s = "\<lparr>packetbuf = [], unread = [frame 179 [7], frame 221 [1] @ frame 219 [] @ frame 221 [2]],
      trace = []\<rparr>"
  let ?s1 = "\<lparr>packetbuf = [], unread = [frame 221 [1] @ frame 219 [] @ frame 221 [2]],
      trace = [Wrote (frame 220 [1]), Slept]\<rparr>"
  let ?s2 = "\<lparr>packetbuf = [], unread = [], trace = [Wrote (frame 220 [1]), Slept]\<rparr>"
  let ?t = "\<lparr>packetbuf = [], unread = [frame 221 [1] @ frame 0 [5]], trace = []\<rparr>"
  let ?t1 = "\<lparr>packetbuf = [], unread = [frame 221 [1] @ frame 0 [5]],
      trace = [Wrote (frame 220 [1])]\<rparr>"
  let ?t2 = "\<lparr>packetbuf = [], unread = [], trace = [Wrote (frame 220 [1])]\<rparr>"
  have h1: "to_bytes niimbot \<lparr>type = HEARTBEAT, data = [1]\<rparr> = Inr (frame 220 [1])"
    by code_simp
  have h2: "attempts niimbot 1 (?s\<lparr>trace := trace ?s @ [Wrote (frame 220 [1])]\<rparr>)
            = Some ([[\<lparr>type = 179, data = [7]\<rparr>]], ?s1)"
    by code_simp
  have h3: "(1::nat) < 6" by simp
  have h4: "\<forall>ps \<in> set [[\<lparr>type = 179, data = [7]\<rparr>]]. \<forall>p \<in> set ps. irrelevant (1 + HEARTBEAT) p"
    by (simp add: irrelevant_def HEARTBEAT_def)
  have h5: "recv niimbot ?s1
      = Some (Inr ([\<lparr>type = 221, data = [1]\<rparr>] @ \<lparr>type = 219, data = []\<rparr> # [\<lparr>type = 221, data = [2]\<rparr>]), ?s2)"
    by code_simp
  have h6: "\<forall>q \<in> set [\<lparr>type = 221, data = [1]\<rparr>]. type q \<noteq> 219 \<and> type q \<noteq> 0"
    by simp
  have g2: "attempts niimbot 0 (?t\<lparr>trace := trace ?t @ [Wrote (frame 220 [1])]\<rparr>) = Some ([], ?t1)"
    by simp
  have g3: "(0::nat) < 6" by simp
  have g4: "\<forall>ps \<in> set []. \<forall>p \<in> set ps. irrelevant (1 + HEARTBEAT) p"
    by simp
  have g5: "recv niimbot ?t1
      = Some (Inr ([\<lparr>type = 221, data = [1]\<rparr>] @ \<lparr>type = 0, data = [5]\<rparr> # []), ?t2)"
    by code_simp
  show ?thesis
    using transceive_error_frame [OF h1 h2 h3 h4 h5 h6]
      transceive_error_frame [OF h1 g2 g3 g4 g5 h6]
    by simp
qed

text \<open>
  When all six polling attempts return, and return only frames the loop passes over (none
  of the expected type, of type 219 or of type 0), the call returns \<^verbatim>\<open>None\<close> after exactly
  one write and six sleeps; \<^verbatim>\<open>print_image\<close>, whose first command made the call, then ends
  with \<^verbatim>\<open>AttributeError\<close> in that very state.
\<close>

lemma transceive_timeout:
  assumes "to_bytes c \<lparr>type = reqcode, data = dat\<rparr> = Inr bs"
    and "attempts c 6 (s\<lparr>trace := trace s @ [Wrote bs]\<rparr>) = Some (pss, s')"
    and "\<forall>ps \<in> set pss. \<forall>p \<in> set ps. irrelevant (respoffset + reqcode) p"
  shows "transceive c reqcode dat respoffset s = Some (Inr None, s')
       \<and> trace s' = trace s @ Wrote bs # replicate 6 Slept
       \<and> (reqcode = SET_LABEL_DENSITY \<and> respoffset = 16 \<and> 1 \<le> density \<and> density \<le> 5
            \<and> dat = [word_of_int density] \<longrightarrow>
          print_image c img density s = Some (Inl AttributeError, s'))"
proof -
  have "transceive c reqcode dat respoffset s =
        poll c (respoffset + reqcode) (6 + 0) None (s\<lparr>trace := trace s @ [Wrote bs]\<rparr>)"
    using transceive_poll [OF assms(1)] by simp
  also have "\<dots> = poll c (respoffset + reqcode) 0 None s'"
    by (rule poll_attempts [OF assms(2) assms(3)])
  finally have t: "transceive c reqcode dat respoffset s = Some (Inr None, s')"
    by (simp add: return_def)
  have tr: "trace s' = trace s @ Wrote bs # replicate 6 Slept"
    using attempts_trace [OF assms(2)] by simp
  have "print_image c img density s = Some (Inl AttributeError, s')"
    if "reqcode = SET_LABEL_DENSITY" "respoffset = 16" "1 \<le> density" "density \<le> 5"
      "dat = [word_of_int density]"
  proof -
    have "set_label_density c density s = Some (Inl AttributeError, s')"
      using that t
      by (simp add: set_label_density_def bytes1_def seq_def lift_def data0_bool_def)
    then show ?thesis
      by (simp add: print_image_def seq_def)
  qed
  with t tr show ?thesis by blast
qed

lemma transceive_timeout_example:
  "transceive niimbot SET_LABEL_DENSITY [3] 16
     \<lparr>packetbuf = [], unread = [frame 221 [1]], trace = []\<rparr>
   = Some (Inr None, \<lparr>packetbuf = [], unread = [],
                      trace = Wrote (frame 33 [3]) # replicate 6 Slept\<rparr>)
   \<and> print_image niimbot \<lparr>width = 8, height = 1, pixel = \<lambda>x y. 255\<rparr> 3
     \<lparr>packetbuf = [], unread = [frame 221 [1]], trace = []\<rparr>
   = Some (Inl AttributeError, \<lparr>packetbuf = [], unread = [],
                      trace = Wrote (frame 33 [3]) # replicate 6 Slept\<rparr>)"
proof -
  let ?s = "\<lparr>packetbuf = [], unread = [frame 221 [1]], trace = []\<rparr>"
  let ?s' = "\<lparr>packetbuf = [], unread = [], trace = Wrote (frame 33 [3]) # replicate 6 Slept\<rparr>"
  have h1: "to_bytes niimbot \<lparr>type = SET_LABEL_DENSITY, data = [3]\<rparr> = Inr (frame 33 [3])"
    by code_simp
  have h2: "attempts niimbot 6 (?s\<lparr>trace := trace ?s @ [Wrote (frame 33 [3])]\<rparr>)
            = Some ([[\<lparr>type = 221, data = [1]\<rparr>], [], [], [], [], []], ?s')"
    by code_simp
  have h3: "\<forall>ps \<in> set [[\<lparr>type = 221, data = [1]\<rparr>], [], [], [], [], []].
              \<forall>p \<in> set ps. irrelevant (16 + SET_LABEL_DENSITY) p"
    by (simp add: irrelevant_def SET_LABEL_DENSITY_def)
  show ?thesis
    using transceive_timeout [OF h1 h2 h3, of 3 "\<lparr>width = 8, height = 1, pixel = \<lambda>x y. 255\<rparr>"]
    by simp
qed

lemma poll_recv_None: "recv c s = None \<Longrightarrow> poll c respcode (Suc n) resp s = None"
  by (simp add: seq_def)

text \<open>
  C7.  The request of \<^verbatim>\<open>set_label_density\<close> has been sent and the only bytes that arrive are
  \<open>55 55 DD 01 01\<close>, the first five bytes of a frame of eight.  No frame of the expected
  type arrives, but the first polling attempt never returns: \<^verbatim>\<open>_recv\<close> finds more than four
  bytes and fewer than the \<open>1 + 7\<close> announced and goes round its loop for ever.  So
  \<^verbatim>\<open>_transceive\<close> never returns \<^verbatim>\<open>None\<close>, and \<^verbatim>\<open>print_image\<close> never ends.
\<close>

theorem partial_frame_defeats_timeout:
  "transceive niimbot SET_LABEL_DENSITY [3] 16
     \<lparr>packetbuf = [], unread = [[0x55, 0x55, 221, 1, 1]], trace = []\<rparr>
   = None
   \<and> print_image niimbot \<lparr>width = 8, height = 1, pixel = \<lambda>x y. 255\<rparr> 3
     \<lparr>packetbuf = [], unread = [[0x55, 0x55, 221, 1, 1]], trace = []\<rparr>
   = None"
proof -
  let ?s = "\<lparr>packetbuf = [], unread = [[0x55, 0x55, 221, 1, 1 :: byte]], trace = []\<rparr>"
  have h1: "to_bytes niimbot \<lparr>type = SET_LABEL_DENSITY, data = [3]\<rparr> = Inr (frame 33 [3])"
    by code_simp
  have six: "(6 :: nat) = Suc 5" by simp
  have r: "recv niimbot (?s\<lparr>trace := trace ?s @ [Wrote (frame 33 [3])]\<rparr>) = None"
    by (simp add: recv_def transport_read_def recv_loop_stuck)
  have "transceive niimbot SET_LABEL_DENSITY [3] 16 ?s =
        poll niimbot (16 + SET_LABEL_DENSITY) (Suc 5) None (?s\<lparr>trace := trace ?s @ [Wrote (frame 33 [3])]\<rparr>)"
    by (subst transceive_poll [OF h1]) (simp only: six)
  also have "\<dots> = None"
    by (rule poll_recv_None [OF r])
  finally have t: "transceive niimbot SET_LABEL_DENSITY [3] 16 ?s = None" .
  have "set_label_density niimbot 3 ?s = None"
    using t by (simp add: set_label_density_def bytes1_def seq_def lift_def)
  then have "print_image niimbot \<lparr>width = 8, height = 1, pixel = \<lambda>x y. 255\<rparr> 3 ?s = None"
    by (simp add: print_image_def seq_def)
  with t show ?thesis by simp
qed

section \<open>The reply code of an info request\<close>

text \<open>
  C3, as stated, fails: after a request for the key \<open>DENSITY = 1\<close> a frame of type \<open>1\<close>
  arrives; it is passed over, and after six attempts \<^verbatim>\<open>get_info\<close> returns \<^verbatim>\<open>None\<close>.
\<close>

theorem info_frame_of_key_type_passed_over:
  "get_info niimbot DENSITY \<lparr>packetbuf = [], unread = [frame 1 [3]], trace = []\<rparr>
   = Some (Inr NoInfo,
           \<lparr>packetbuf = [], unread = [], trace = Wrote (frame 64 [1]) # replicate 6 Slept\<rparr>)"
  by code_simp

text \<open>
  C3, amended.  The reply code that a \<^verbatim>\<open>GET_INFO\<close> request for the key \<open>key\<close> waits for is
  \<open>key + 64\<close>, the key added to the request code as the offset: when, after \<open>k < 6\<close>
  attempts that returned only frames passed over, a batch without frames of type 219 or 0
  holds a frame of type \<open>key + 64\<close>, then \<^verbatim>\<open>get_info\<close> ends in the state that this batch
  left, with the value decoded from the last such frame: the hex string, the plain integer
  or, for the two version keys, the result of the division by 100, which is the error
  \<^verbatim>\<open>OverflowError\<close> when the payload is too large a number.
\<close>

theorem get_info_reply_code:
  assumes "0 \<le> key" and "key < 256"
    and "to_bytes c \<lparr>type = GET_INFO, data = [word_of_int key]\<rparr> = Inr bs"
    and "attempts c k (s\<lparr>trace := trace s @ [Wrote bs]\<rparr>) = Some (pss, s1)"
    and "k < 6"
    and "\<forall>ps \<in> set pss. \<forall>p \<in> set ps. irrelevant (key + GET_INFO) p"
    and "recv c s1 = Some (Inr ps, s2)"
    and "\<forall>p \<in> set ps. type p \<noteq> 219 \<and> type p \<noteq> 0"
    and "\<exists>p \<in> set ps. type p = key + 64"
    and "pkt = last (filter (\<lambda>p. type p = key + 64) ps)"
  shows "get_info c key s =
         Some (if key = DEVICESERIAL then Inr (Hex (data pkt))
               else if key = SOFTVERSION \<or> key = HARDVERSION
                    then div_100 (packet_to_int pkt)
               else Inr (Plain (packet_to_int pkt)), s2)"
proof -
  have g: "key + GET_INFO = key + 64" by (simp add: GET_INFO_def)
  have "transceive c GET_INFO [word_of_int key] key s =
        poll c (key + GET_INFO) (Suc (5 - k)) None s1"
    by (rule transceive_attempt [OF assms(3) assms(4) assms(5) assms(6)])
  also have "\<dots> = Some (Inr (Some pkt), s2)"
    unfolding g assms(10) by (rule poll_batch_match [OF assms(7) assms(8) assms(9)])
  finally have t: "transceive c GET_INFO [word_of_int key] key s = Some (Inr (Some pkt), s2)" .
  show ?thesis
    using assms(1,2) t
    by (simp add: get_info_def bytes1_def seq_def lift_def return_def)
qed

theorem get_info_reply_code_witness:
  "get_info niimbot BATTERY
     \<lparr>packetbuf = [], unread = [frame 10 [1], frame 74 [3] @ frame 10 [2] @ frame 74 [4]],
      trace = []\<rparr>
   = Some (Inr (Plain 4),
           \<lparr>packetbuf = [], unread = [], trace = [Wrote (frame 64 [10]), Slept]\<rparr>)"
proof -
  let ?s = "\<lparr>packetbuf = [], unread = [frame 10 [1], frame 74 [3] @ frame 10 [2] @ frame 74 [4]],
      trace = []\<rparr>"
  let ?s1 = "\<lparr>packetbuf = [], unread = [frame 74 [3] @ frame 10 [2] @ frame 74 [4]],
      trace = [Wrote (frame 64 [10]), Slept]\<rparr>"
  let ?s2 = "\<lparr>packetbuf = [], unread = [], trace = [Wrote (frame 64 [10]), Slept]\<rparr>"
  let ?ps = "[\<lparr>type = 74, data = [3]\<rparr>, \<lparr>type = 10, data = [2]\<rparr>, \<lparr>type = 74, data = [4]\<rparr>]"
  have h1: "0 \<le> BATTERY" and h2: "BATTERY < 256"
    by (simp_all add: BATTERY_def)
  have h3: "to_bytes niimbot \<lparr>type = GET_INFO, data = [word_of_int BATTERY]\<rparr> = Inr (frame 64 [10])"
    by code_simp
  have h4: "attempts niimbot 1 (?s\<lparr>trace := trace ?s @ [Wrote (frame 64 [10])]\<rparr>)
            = Some ([[\<lparr>type = 10, data = [1]\<rparr>]], ?s1)"
    by code_simp
  have h5: "(1::nat) < 6" by simp
  have h6: "\<forall>ps \<in> set [[\<lparr>type = 10, data = [1]\<rparr>]]. \<forall>p \<in> set ps. irrelevant (BATTERY + GET_INFO) p"
    by (simp add: irrelevant_def BATTERY_def GET_INFO_def)
  have h7: "recv niimbot ?s1 = Some (Inr ?ps, ?s2)"
    by code_simp
  have h8: "\<forall>p \<in> set ?ps. type p \<noteq> 219 \<and> type p \<noteq> 0"
    by simp
  have h9: "\<exists>p \<in> set ?ps. type p = BATTERY + 64"
    by (simp add: BATTERY_def)
  have h10: "\<lparr>type = 74, data = [4]\<rparr> = last (filter (\<lambda>p. type p = BATTERY + 64) ?ps)"
    by (simp add: BATTERY_def)
  show ?thesis
    using get_info_reply_code [OF h1 h2 h3 h4 h5 h6 h7 h8 h9 h10]
    by (simp add: BATTERY_def DEVICESERIAL_def SOFTVERSION_def HARDVERSION_def packet_to_int_def)
qed

text \<open>The two outcomes for a version key: a version number, and the overflow of the division.\<close>

lemma get_info_version_examples:
  "get_info niimbot SOFTVERSION
     \<lparr>packetbuf = [], unread = [frame 73 [1, 44]], trace = []\<rparr>
   = Some (Inr (Hundredths 300),
           \<lparr>packetbuf = [], unread = [], trace = [Wrote (frame 64 [9])]\<rparr>)
   \<and> get_info niimbot SOFTVERSION
     \<lparr>packetbuf = [], unread = [frame 73 (replicate 129 255)], trace = []\<rparr>
   = Some (Inl OverflowError,
           \<lparr>packetbuf = [], unread = [], trace = [Wrote (frame 64 [9])]\<rparr>)"
  by code_simp

section \<open>Properties of the print session\<close>

lemma print_image_steps:
  assumes "set_label_density c density s = Some (Inr b1, s1)"
    and "set_label_type c 1 s1 = Some (Inr b2, s2)"
    and "start_print c s2 = Some (Inr b3, s3)"
    and "start_page_print c s3 = Some (Inr b4, s4)"
    and "set_dimension c (int (height img)) (int (width img)) s4 = Some (Inr b5, s5)"
  shows "print_image c img density s =
         seq (send_all c (encode_image img)) (\<lambda>_.
         seq (end_page_print c) (\<lambda>_.
         seq (wait_idle c) (\<lambda>_.
         end_print_loop c))) s5"
  using assms by (simp add: print_image_def seq_Some_Inr)

lemma print_image_run:
  assumes "set_label_density c density s = Some (Inr b1, s1)"
    and "set_label_type c 1 s1 = Some (Inr b2, s2)"
    and "start_print c s2 = Some (Inr b3, s3)"
    and "start_page_print c s3 = Some (Inr b4, s4)"
    and "set_dimension c (int (height img)) (int (width img)) s4 = Some (Inr b5, s5)"
    and "send_all c (encode_image img) s5 = Some (Inr (), s6)"
    and "end_page_print c s6 = Some (Inr b7, s7)"
    and "wait_idle c s7 = Some (Inr (), s8)"
  shows "print_image c img density s = end_print_loop c s8"
  using assms(6-8)
  by (simp add: print_image_steps [OF assms(1-5)] seq_Some_Inr)

lemma end_print_loop_retry:
  "end_print c s = Some (Inr False, s1) \<Longrightarrow> sleep s1 = Some (Inr (), s2) \<Longrightarrow>
   end_print_loop c s = end_print_loop c s2"
  by (subst end_print_loop.simps) simp

lemma end_print_loop_success:
  "end_print c s = Some (Inr True, s') \<Longrightarrow> end_print_loop c s = Some (Inr (), s')"
  by (subst end_print_loop.simps) simp

lemma end_print_loop_retries:
  "\<forall>i<n. end_print c (f i) = Some (Inr False, g i) \<and> sleep (g i) = Some (Inr (), f (Suc i)) \<Longrightarrow>
   end_print_loop c (f 0) = end_print_loop c (f n)"
proof (induction n)
  case 0
  show ?case by simp
next
  case (Suc n)
  from Suc.prems have "end_print_loop c (f 0) = end_print_loop c (f n)"
    by (intro Suc.IH) simp
  also from Suc.prems have "\<dots> = end_print_loop c (f (Suc n))"
    by (intro end_print_loop_retry [where ?s1.0 = "g n"]) simp_all
  finally show ?case .
qed

lemma encode_image_zero_width:
  assumes "width img = 0"
  shows "encode_image img = replicate (height img) (Inl ValueError)"
proof -
  have row: "encode_row (convert_1 (invert (convert_L img))) = (\<lambda>y. Inl ValueError)"
    using assms
    by (auto simp: encode_row_def convert_1_def invert_def convert_L_def int_base2_def Let_def)
  have h: "height (convert_1 (invert (convert_L img))) = height img"
    by (simp add: convert_1_def invert_def convert_L_def Let_def)
  show ?thesis
    by (simp add: encode_image_def Let_def row h map_replicate_const)
qed

text \<open>
  C1, as stated, fails: the printer answers set-label-density, set-label-type and
  start-print with the flag \<open>0\<close> (failure) and the later commands with \<open>1\<close>.  The session
  does not abort: every later command of the sequence is written and \<^verbatim>\<open>print_image\<close>
  returns normally.
\<close>

theorem print_image_continues_after_failure_reports:
  "print_image niimbot \<lparr>width = 8, height = 1, pixel = \<lambda>x y. 255\<rparr> 3
     \<lparr>packetbuf = [],
      unread = [frame 49 [0], frame 51 [0], frame 2 [0], frame 4 [1], frame 20 [1],
                frame 228 [1], frame 179 [0, 1, 0, 0, 0, 0, 0, 0, 0, 0], frame 244 [1]],
      trace = []\<rparr>
   = Some (Inr (),
       \<lparr>packetbuf = [], unread = [],
        trace = [Wrote (frame 33 [3]), Wrote (frame 35 [1]), Wrote (frame 1 [1]),
                 Wrote (frame 3 [1]), Wrote (frame 19 [0, 1, 0, 8]),
                 Wrote (frame 0x85 [0, 0, 0, 0, 0, 1, 0]), Wrote (frame 227 [1]),
                 Wrote (frame 163 [1]), Wrote (frame 243 [1])]\<rparr>)"
  by code_simp

text \<open>
  C1, amended.  \<^verbatim>\<open>print_image\<close> discards the flag that set-label-density, set-label-type
  and start-print return: whatever the three report (\<open>b1\<close>, \<open>b2\<close>, \<open>b3\<close>, in particular
  failure, the flag of a reply whose first payload byte is \<open>0\<close>), the sequence goes on with
  start-page-print, set-dimension, the rows, end-page-print and the status poll, and
  reaches the end-print loop.
\<close>

theorem print_image_ignores_step_flags:
  assumes "set_label_density c density s = Some (Inr b1, s1)"
    and "set_label_type c 1 s1 = Some (Inr b2, s2)"
    and "start_print c s2 = Some (Inr b3, s3)"
    and "start_page_print c s3 = Some (Inr b4, s4)"
    and "set_dimension c (int (height img)) (int (width img)) s4 = Some (Inr b5, s5)"
    and "send_all c (encode_image img) s5 = Some (Inr (), s6)"
    and "end_page_print c s6 = Some (Inr b7, s7)"
    and "wait_idle c s7 = Some (Inr (), s8)"
  shows "print_image c img density s = end_print_loop c s8
       \<and> data0_bool (Some \<lparr>type = t, data = 0 # d\<rparr>) = Inr False"
  using print_image_run [OF assms] by (simp add: data0_bool_def)

theorem print_image_ignores_step_flags_witness:
  "set_label_density niimbot 3
     \<lparr>packetbuf = [],
      unread = [frame 49 [0], frame 51 [0], frame 2 [0], frame 4 [1], frame 20 [1],
                frame 228 [1], frame 179 [0, 1, 0, 0, 0, 0, 0, 0, 0, 0], frame 244 [1]],
      trace = []\<rparr>
   = Some (Inr False,
       \<lparr>packetbuf = [],
        unread = [frame 51 [0], frame 2 [0], frame 4 [1], frame 20 [1],
                  frame 228 [1], frame 179 [0, 1, 0, 0, 0, 0, 0, 0, 0, 0], frame 244 [1]],
        trace = [Wrote (frame 33 [3])]\<rparr>)
   \<and> print_image niimbot \<lparr>width = 8, height = 1, pixel = \<lambda>x y. 255\<rparr> 3
     \<lparr>packetbuf = [],
      unread = [frame 49 [0], frame 51 [0], frame 2 [0], frame 4 [1], frame 20 [1],
                frame 228 [1], frame 179 [0, 1, 0, 0, 0, 0, 0, 0, 0, 0], frame 244 [1]],
      trace = []\<rparr>
   = end_print_loop niimbot
       \<lparr>packetbuf = [], unread = [frame 244 [1]],
        trace = [Wrote (frame 33 [3]), Wrote (frame 35 [1]), Wrote (frame 1 [1]),
                 Wrote (frame 3 [1]), Wrote (frame 19 [0, 1, 0, 8]),
                 Wrote (frame 0x85 [0, 0, 0, 0, 0, 1, 0]), Wrote (frame 227 [1]),
                 Wrote (frame 163 [1])]\<rparr>"
proof -
  let ?img = "\<lparr>width = 8, height = 1, pixel = \<lambda>x y. 255 :: byte\<rparr>"
  let ?replies = "[frame 49 [0], frame 51 [0], frame 2 [0], frame 4 [1], frame 20 [1],
                frame 228 [1], frame 179 [0, 1, 0, 0, 0, 0, 0, 0, 0, 0], frame 244 [1]]"
  let ?writes = "[Wrote (frame 33 [3]), Wrote (frame 35 [1]), Wrote (frame 1 [1]),
                 Wrote (frame 3 [1]), Wrote (frame 19 [0, 1, 0, 8]),
                 Wrote (frame 0x85 [0, 0, 0, 0, 0, 1, 0]), Wrote (frame 227 [1]),
                 Wrote (frame 163 [1])]"
  let ?st = "\<lambda>r w. \<lparr>packetbuf = [], unread = drop r ?replies, trace = take w ?writes\<rparr>"
  have h1: "set_label_density niimbot 3 (?st 0 0) = Some (Inr False, ?st 1 1)"
    by code_simp
  have h2: "set_label_type niimbot 1 (?st 1 1) = Some (Inr False, ?st 2 2)"
    by code_simp
  have h3: "start_print niimbot (?st 2 2) = Some (Inr False, ?st 3 3)"
    by code_simp
  have h4: "start_page_print niimbot (?st 3 3) = Some (Inr True, ?st 4 4)"
    by code_simp
  have h5: "set_dimension niimbot (int (height ?img)) (int (width ?img)) (?st 4 4)
            = Some (Inr True, ?st 5 5)"
    by code_simp
  have h6: "send_all niimbot (encode_image ?img) (?st 5 5) = Some (Inr (), ?st 5 6)"
    by code_simp
  have h7: "end_page_print niimbot (?st 5 6) = Some (Inr True, ?st 6 7)"
    by code_simp
  have h8: "wait_idle niimbot (?st 6 7) = Some (Inr (), ?st 7 8)"
    by code_simp
  show ?thesis
    using print_image_ignores_step_flags [OF h1 h2 h3 h4 h5 h6 h7 h8] h1
    by simp
qed

text \<open>
  C9, as stated, fails in its last clause: the steps before are not treated fail-fast.
  Here start-print reports failure (flag \<open>0\<close>) and end-print reports failure once; the
  session goes on after the first as it does after the second, and ends normally.
\<close>

theorem start_print_failure_report_not_fatal:
  "print_image niimbot \<lparr>width = 8, height = 1, pixel = \<lambda>x y. 0\<rparr> 3
     \<lparr>packetbuf = [],
      unread = [frame 49 [1], frame 51 [1], frame 2 [0], frame 4 [1], frame 20 [1],
                frame 228 [1], frame 179 [0, 1, 0, 0, 0, 0, 0, 0, 0, 0],
                frame 244 [0], frame 244 [1]],
      trace = []\<rparr>
   = Some (Inr (),
       \<lparr>packetbuf = [], unread = [],
        trace = [Wrote (frame 33 [3]), Wrote (frame 35 [1]), Wrote (frame 1 [1]),
                 Wrote (frame 3 [1]), Wrote (frame 19 [0, 1, 0, 8]),
                 Wrote (frame 0x85 [0, 0, 0, 0, 0, 1, 255]), Wrote (frame 227 [1]),
                 Wrote (frame 163 [1]), Wrote (frame 243 [1]), Slept,
                 Wrote (frame 243 [1])]\<rparr>)"
  by code_simp

text \<open>
  C9, amended.  Once the status poll has reported idle, \<^verbatim>\<open>print_image\<close> sends end-print; as
  long as end-print reports failure it sleeps and sends it again, and it returns when
  end-print reports success.  For every number \<open>n\<close> of failure reports before the first
  success the run ends normally in the state \<open>s'\<close> left by the end-print that succeeded;
  \<open>f i\<close> is the state before the end-print number \<open>i\<close> and \<open>g i\<close> the state after it.
\<close>

theorem end_print_retried_until_success:
  assumes "set_label_density c density s = Some (Inr b1, s1)"
    and "set_label_type c 1 s1 = Some (Inr b2, s2)"
    and "start_print c s2 = Some (Inr b3, s3)"
    and "start_page_print c s3 = Some (Inr b4, s4)"
    and "set_dimension c (int (height img)) (int (width img)) s4 = Some (Inr b5, s5)"
    and "send_all c (encode_image img) s5 = Some (Inr (), s6)"
    and "end_page_print c s6 = Some (Inr b7, s7)"
    and "wait_idle c s7 = Some (Inr (), f 0)"
    and "\<forall>i<n. end_print c (f i) = Some (Inr False, g i)
               \<and> sleep (g i) = Some (Inr (), f (Suc i))"
    and "end_print c (f n) = Some (Inr True, s')"
  shows "print_image c img density s = Some (Inr (), s')"
proof -
  have "print_image c img density s = end_print_loop c (f 0)"
    by (rule print_image_run [OF assms(1-8)])
  also have "\<dots> = end_print_loop c (f n)"
    by (rule end_print_loop_retries [OF assms(9)])
  also have "\<dots> = Some (Inr (), s')"
    by (rule end_print_loop_success [OF assms(10)])
  finally show ?thesis .
qed

theorem end_print_retried_until_success_witness:
  "print_image niimbot \<lparr>width = 8, height = 1, pixel = \<lambda>x y. 255\<rparr> 3
     \<lparr>packetbuf = [],
      unread = [frame 49 [1], frame 51 [1], frame 2 [1], frame 4 [1], frame 20 [1],
                frame 228 [1], frame 179 [0, 0, 0, 0, 0, 0, 0, 0, 0, 0],
                frame 179 [0, 1, 0, 0, 0, 0, 0, 0, 0, 0],
                frame 244 [0], frame 244 [0], frame 244 [1]],
      trace = []\<rparr>
   = Some (Inr (),
       \<lparr>packetbuf = [], unread = [],
        trace = [Wrote (frame 33 [3]), Wrote (frame 35 [1]), Wrote (frame 1 [1]),
                 Wrote (frame 3 [1]), Wrote (frame 19 [0, 1, 0, 8]),
                 Wrote (frame 0x85 [0, 0, 0, 0, 0, 1, 0]), Wrote (frame 227 [1]),
                 Wrote (frame 163 [1]), Wrote (frame 163 [1]),
                 Wrote (frame 243 [1]), Slept, Wrote (frame 243 [1]), Slept,
                 Wrote (frame 243 [1])]\<rparr>)"
proof -
  let ?img = "\<lparr>width = 8, height = 1, pixel = \<lambda>x y. 255 :: byte\<rparr>"
  let ?replies = "[frame 49 [1], frame 51 [1], frame 2 [1], frame 4 [1], frame 20 [1],
                frame 228 [1], frame 179 [0, 0, 0, 0, 0, 0, 0, 0, 0, 0],
                frame 179 [0, 1, 0, 0, 0, 0, 0, 0, 0, 0],
                frame 244 [0], frame 244 [0], frame 244 [1]]"
  let ?writes = "[Wrote (frame 33 [3]), Wrote (frame 35 [1]), Wrote (frame 1 [1]),
                 Wrote (frame 3 [1]), Wrote (frame 19 [0, 1, 0, 8]),
                 Wrote (frame 0x85 [0, 0, 0, 0, 0, 1, 0]), Wrote (frame 227 [1]),
                 Wrote (frame 163 [1]), Wrote (frame 163 [1]),
                 Wrote (frame 243 [1]), Slept, Wrote (frame 243 [1]), Slept,
                 Wrote (frame 243 [1])]"
  let ?st = "\<lambda>r w. \<lparr>packetbuf = [], unread = drop r ?replies, trace = take w ?writes\<rparr>"
  let ?f = "\<lambda>i. ?st (8 + i) (9 + 2 * i)"
  let ?g = "\<lambda>i. ?st (9 + i) (10 + 2 * i)"
  have h1: "set_label_density niimbot 3 (?st 0 0) = Some (Inr True, ?st 1 1)"
    by code_simp
  have h2: "set_label_type niimbot 1 (?st 1 1) = Some (Inr True, ?st 2 2)"
    by code_simp
  have h3: "start_print niimbot (?st 2 2) = Some (Inr True, ?st 3 3)"
    by code_simp
  have h4: "start_page_print niimbot (?st 3 3) = Some (Inr True, ?st 4 4)"
    by code_simp
  have h5: "set_dimension niimbot (int (height ?img)) (int (width ?img)) (?st 4 4)
            = Some (Inr True, ?st 5 5)"
    by code_simp
  have h6: "send_all niimbot (encode_image ?img) (?st 5 5) = Some (Inr (), ?st 5 6)"
    by code_simp
  have h7: "end_page_print niimbot (?st 5 6) = Some (Inr True, ?st 6 7)"
    by code_simp
  have h8: "wait_idle niimbot (?st 6 7) = Some (Inr (), ?f 0)"
    by code_simp
  have r0: "end_print niimbot (?f 0) = Some (Inr False, ?g 0)
            \<and> sleep (?g 0) = Some (Inr (), ?f (Suc 0))"
    by code_simp
  have r1: "end_print niimbot (?f (Suc 0)) = Some (Inr False, ?g (Suc 0))
            \<and> sleep (?g (Suc 0)) = Some (Inr (), ?f (Suc (Suc 0)))"
    by code_simp
  have h9: "\<forall>i<Suc (Suc 0). end_print niimbot (?f i) = Some (Inr False, ?g i)
               \<and> sleep (?g i) = Some (Inr (), ?f (Suc i))"
  proof (intro allI impI)
    fix i :: nat
    assume "i < Suc (Suc 0)"
    then have "i = 0 \<or> i = Suc 0" by auto
    then show "end_print niimbot (?f i) = Some (Inr False, ?g i)
               \<and> sleep (?g i) = Some (Inr (), ?f (Suc i))"
    proof
      assume "i = 0"
      with r0 show ?thesis by (simp only:)
    next
      assume "i = Suc 0"
      with r1 show ?thesis by (simp only:)
    qed
  qed
  have h10: "end_print niimbot (?f (Suc (Suc 0))) = Some (Inr True, ?st 11 14)"
    by code_simp
  show ?thesis
    using end_print_retried_until_success [where f = ?f and g = ?g, OF h1 h2 h3 h4 h5 h6 h7 h8 h9 h10]
    by simp
qed

text \<open>
  C10.  For an image of width \<open>0\<close> and height at least \<open>1\<close>, every row the generator is
  asked for raises \<^verbatim>\<open>ValueError\<close>, since \<^verbatim>\<open>int("", 2)\<close> rejects the empty bit string.  When
  the five commands before the rows have returned, leaving the state \<open>s5\<close>, the loop over
  the rows raises at the first row without writing, and \<^verbatim>\<open>print_image\<close> ends with
  \<^verbatim>\<open>ValueError\<close> in \<open>s5\<close>: no row packet is produced or sent.
\<close>

theorem zero_width_image_fails_at_first_row:
  assumes "width img = 0" and "0 < height img"
    and "set_label_density c density s = Some (Inr b1, s1)"
    and "set_label_type c 1 s1 = Some (Inr b2, s2)"
    and "start_print c s2 = Some (Inr b3, s3)"
    and "start_page_print c s3 = Some (Inr b4, s4)"
    and "set_dimension c (int (height img)) (int (width img)) s4 = Some (Inr b5, s5)"
  shows "encode_image img = replicate (height img) (Inl ValueError)
       \<and> send_all c (encode_image img) s5 = Some (Inl ValueError, s5)
       \<and> print_image c img density s = Some (Inl ValueError, s5)"
proof -
  have e: "encode_image img = replicate (height img) (Inl ValueError)"
    by (rule encode_image_zero_width [OF assms(1)])
  from assms(2) obtain n where n: "height img = Suc n"
    by (cases "height img") auto
  have sa: "send_all c (encode_image img) s5 = Some (Inl ValueError, s5)"
    by (simp add: e n raise_def)
  have "print_image c img density s = Some (Inl ValueError, s5)"
    by (simp add: print_image_steps [OF assms(3-7)] seq_def sa)
  with e sa show ?thesis by simp
qed

theorem zero_width_image_fails_at_first_row_witness:
  "print_image niimbot \<lparr>width = 0, height = 2, pixel = \<lambda>x y. 255\<rparr> 3
     \<lparr>packetbuf = [],
      unread = [frame 49 [1], frame 51 [1], frame 2 [1], frame 4 [1], frame 20 [1],
                frame 228 [1]],
      trace = []\<rparr>
   = Some (Inl ValueError,
       \<lparr>packetbuf = [], unread = [frame 228 [1]],
        trace = [Wrote (frame 33 [3]), Wrote (frame 35 [1]), Wrote (frame 1 [1]),
                 Wrote (frame 3 [1]), Wrote (frame 19 [0, 2, 0, 0])]\<rparr>)"
proof -
  let ?img = "\<lparr>width = 0, height = 2, pixel = \<lambda>x y. 255 :: byte\<rparr>"
  let ?replies = "[frame 49 [1], frame 51 [1], frame 2 [1], frame 4 [1], frame 20 [1],
                frame 228 [1]]"
  let ?writes = "[Wrote (frame 33 [3]), Wrote (frame 35 [1]), Wrote (frame 1 [1]),
                 Wrote (frame 3 [1]), Wrote (frame 19 [0, 2, 0, 0])]"
  let ?st = "\<lambda>r w. \<lparr>packetbuf = [], unread = drop r ?replies, trace = take w ?writes\<rparr>"
  have w: "width ?img = 0" and h: "0 < height ?img"
    by simp_all
  have h1: "set_label_density niimbot 3 (?st 0 0) = Some (Inr True, ?st 1 1)"
    by code_simp
  have h2: "set_label_type niimbot 1 (?st 1 1) = Some (Inr True, ?st 2 2)"
    by code_simp
  have h3: "start_print niimbot (?st 2 2) = Some (Inr True, ?st 3 3)"
    by code_simp
  have h4: "start_page_print niimbot (?st 3 3) = Some (Inr True, ?st 4 4)"
    by code_simp
  have h5: "set_dimension niimbot (int (height ?img)) (int (width ?img)) (?st 4 4)
            = Some (Inr True, ?st 5 5)"
    by code_simp
  show ?thesis
    using zero_width_image_fails_at_first_row [OF w h h1 h2 h3 h4 h5]
    by simp
qed

end
